theory Spec2Isabelle
  imports Main "HOL-Library.Sublist"
begin

section \<open>Strings and Python string primitives\<close>

text \<open>
  Python strings are modelled as HOL strings (lists of \<^typ>\<open>char\<close>). The functions
  below stand for the \<open>str\<close> methods the sources call: \<open>in\<close> on strings,
  \<open>startswith\<close>, \<open>strip\<close>, \<open>replace\<close>, \<open>upper\<close> and \<open>str\<close> of an integer.
\<close>

definition startswith :: "string \<Rightarrow> string \<Rightarrow> bool" where
  "startswith s p = prefix p s"

text \<open>\<open>sub in s\<close> for strings: \<open>sub\<close> occurs in \<open>s\<close> as a contiguous run.\<close>

fun str_contains :: "string \<Rightarrow> string \<Rightarrow> bool" where
  "str_contains [] sub = (sub = [])"
| "str_contains (c # cs) sub = (prefix sub (c # cs) \<or> str_contains cs sub)"

text \<open>
  \<open>str.strip()\<close> removes leading and trailing whitespace; on the characters of this
  model Python's \<open>str.isspace\<close> holds for the codes below.
\<close>

definition py_isspace :: "char \<Rightarrow> bool" where
  "py_isspace c =
     (let n = of_char c :: nat
      in (9 \<le> n \<and> n \<le> 13) \<or> (28 \<le> n \<and> n \<le> 32) \<or> n = 133 \<or> n = 160)"

definition strip :: "string \<Rightarrow> string" where
  "strip s = rev (dropWhile py_isspace (rev (dropWhile py_isspace s)))"

text \<open>
  A \<^typ>\<open>char\<close> has 8 bits, and \<open>str.upper\<close> leaves that range (the upper
  case of U+00FF is U+0178) and changes lengths (the sharp s becomes \<open>SS\<close>). Text
  that is upper-cased is therefore a list of Unicode code points.
\<close>

type_synonym ustring = "nat list"

definition ustr :: "string \<Rightarrow> ustring" where
  "ustr s = map of_char s"

text \<open>\<open>s.replace(old, new)\<close> for single characters \<open>old\<close> and \<open>new\<close>.\<close>

definition replace_cp :: "nat \<Rightarrow> nat \<Rightarrow> ustring \<Rightarrow> ustring" where
  "replace_cp old new s = map (\<lambda>c. if c = old then new else c) s"

text \<open>
  \<open>s.upper()\<close> replaces every character by its full upper-case mapping, one character
  at a time. On ASCII the mapping turns \<open>a\<close> to \<open>z\<close> into \<open>A\<close> to \<open>Z\<close> and leaves
  the rest; beyond ASCII it is the table of the Unicode database, a parameter here.
\<close>

definition upper_cp :: "(nat \<Rightarrow> ustring) \<Rightarrow> nat \<Rightarrow> ustring" where
  "upper_cp unicode_upper c =
     (if 97 \<le> c \<and> c \<le> 122 then [c - 32]
      else if c < 128 then [c]
      else unicode_upper c)"

definition upper :: "(nat \<Rightarrow> ustring) \<Rightarrow> ustring \<Rightarrow> ustring" where
  "upper unicode_upper s = concat (map (upper_cp unicode_upper) s)"

text \<open>\<open>str(n)\<close> for an integer: decimal digits, with a minus sign below zero.\<close>

definition digit_char :: "nat \<Rightarrow> char" where
  "digit_char d = char_of (48 + d)"

function str_nat :: "nat \<Rightarrow> string" where
  "str_nat n = (if n < 10 then [digit_char n] else str_nat (n div 10) @ [digit_char (n mod 10)])"
  by pat_completeness auto
termination
  by (relation "measure id") auto

definition str_int :: "int \<Rightarrow> string" where
  "str_int i = (if i < 0 then CHR ''-'' # str_nat (nat (- i)) else str_nat (nat i))"

section \<open>\<open>shlex.split\<close>\<close>

text \<open>
  \<open>shlex.split(s)\<close> builds \<open>shlex(s, posix=True)\<close> with \<open>whitespace_split = True\<close> and
  \<open>commenters = ''\<close> and collects the tokens of \<open>read_token\<close> until end of input. The
  lexer's \<open>state\<close> is one of \<open>' '\<close> (between tokens), \<open>'a'\<close> (inside a word), a quote
  character, or the escape character; \<open>escapedstate\<close> remembers where an escape returns
  to. \<open>quoted\<close>, \<open>escapedstate\<close> and \<open>token\<close> are reset at the start of every
  \<open>read_token\<close> call. The two \<open>ValueError\<close>s of the lexer are the \<open>Inl\<close> results.
\<close>

datatype py_exception = ValueError string

datatype lex_state = St_ws | St_word | St_quote char | St_escape

definition whitespace :: "char list" where
  "whitespace = [CHR '' '', CHR 0x09, CHR 0x0D, CHR 0x0A]"

definition quotes :: "char list" where
  "quotes = [CHR 0x27, CHR 0x22]"

definition escape :: char where
  "escape = CHR 0x5C"

definition escapedquotes :: "char list" where
  "escapedquotes = [CHR 0x22]"

definition emit :: "string \<Rightarrow> py_exception + string list \<Rightarrow> py_exception + string list" where
  "emit tok r = (case r of Inl e \<Rightarrow> Inl e | Inr ts \<Rightarrow> Inr (tok # ts))"

fun read_tokens ::
  "lex_state \<Rightarrow> lex_state \<Rightarrow> bool \<Rightarrow> string \<Rightarrow> string \<Rightarrow> py_exception + string list" where
  "read_tokens (St_quote qc) es quoted tok [] = Inl (ValueError ''No closing quotation'')"
| "read_tokens St_escape es quoted tok [] = Inl (ValueError ''No escaped character'')"
| "read_tokens st es quoted tok [] = Inr (if tok \<noteq> [] \<or> quoted then [tok] else [])"
| "read_tokens St_ws es quoted tok (c # cs) =
     (if c \<in> set whitespace then
        (if tok \<noteq> [] \<or> quoted then emit tok (read_tokens St_ws St_ws False [] cs)
         else read_tokens St_ws es quoted tok cs)
      else if c = escape then read_tokens St_escape St_word quoted tok cs
      else if c \<in> set quotes then read_tokens (St_quote c) es quoted tok cs
      else read_tokens St_word es quoted [c] cs)"
| "read_tokens (St_quote qc) es quoted tok (c # cs) =
     (if c = qc then read_tokens St_word es True tok cs
      else if c = escape \<and> qc \<in> set escapedquotes then
        read_tokens St_escape (St_quote qc) True tok cs
      else read_tokens (St_quote qc) es True (tok @ [c]) cs)"
| "read_tokens St_escape es quoted tok (c # cs) =
     (let tok' = (case es of
                    St_quote qc \<Rightarrow> if c \<noteq> escape \<and> c \<noteq> qc then tok @ [escape] else tok
                  | _ \<Rightarrow> tok)
      in read_tokens es es quoted (tok' @ [c]) cs)"
| "read_tokens St_word es quoted tok (c # cs) =
     (if c \<in> set whitespace then
        (if tok \<noteq> [] \<or> quoted then emit tok (read_tokens St_ws St_ws False [] cs)
         else read_tokens St_ws es quoted tok cs)
      else if c \<in> set quotes then read_tokens (St_quote c) es quoted tok cs
      else if c = escape then read_tokens St_escape St_word quoted tok cs
      else read_tokens St_word es quoted (tok @ [c]) cs)"

definition shlex_split :: "string \<Rightarrow> py_exception + string list" where
  "shlex_split s = read_tokens St_ws St_ws False [] s"

section \<open>The command sanitizer (\<open>_sanitize_command\<close> in \<open>main.py\<close>)\<close>

definition dangerous_commands :: "string list" where
  "dangerous_commands =
     [''rm'', ''sudo'', ''shutdown'', ''reboot'', ''mkfs'', ''fdisk'', '':(){:|:&};:'']"

text \<open>The condition of the \<open>if\<close> inside the \<open>try\<close> block, on the token list.\<close>

definition tokenized_check :: "string list \<Rightarrow> bool" where
  "tokenized_check parts =
     list_ex (\<lambda>part. list_ex (\<lambda>dc. part = dc \<or> startswith part (dc @ '' '')) dangerous_commands)
       parts"

text \<open>The condition of the \<open>if\<close> inside the \<open>except\<close> block, on the raw command.\<close>

definition substring_check :: "string \<Rightarrow> bool" where
  "substring_check command = list_ex (\<lambda>cmd. str_contains command cmd) dangerous_commands"

text \<open>
  The \<open>try\<close> block: \<open>shlex.split\<close> may raise, and the block itself raises \<open>ValueError\<close>
  when the tokenized check finds a dangerous command.
\<close>

definition sanitize_try :: "string \<Rightarrow> py_exception + unit" where
  "sanitize_try command =
     (case shlex_split command of
        Inl e \<Rightarrow> Inl e
      | Inr parts \<Rightarrow>
          if tokenized_check parts
          then Inl (ValueError ''Use of dangerous commands or patterns is restricted.'')
          else Inr ())"

text \<open>
  The handler is \<open>except Exception\<close>, so it receives every exception of the \<open>try\<close>
  block: the lexer's and the block's own \<open>ValueError\<close>.
\<close>

definition sanitize_command :: "string \<Rightarrow> py_exception + string" where
  "sanitize_command command =
     (case sanitize_try command of
        Inl e \<Rightarrow>
          if substring_check command
          then Inl (ValueError ''Use of dangerous commands is restricted.'')
          else Inr command
      | Inr u \<Rightarrow> Inr command)"

section \<open>The operating system and the Python runtime\<close>

text \<open>
  What the code calls outside itself is a parameter of the model. \<open>subprocess.run\<close>
  either returns a completed process (return code, stdout, stderr) or raises; a
  \<open>TimeoutExpired\<close> carries the output captured before the child was killed.
\<close>

datatype run_outcome =
    Completed int string string
  | TimeoutExpired string string
  | FileNotFoundError
  | OtherException string

datatype shell_outcome =
    ShellExited int string string
  | ShellRaised string

datatype json =
    JNull
  | JBool bool
  | JInt int
  | JFloat string
  | JStr string
  | JArr "json list"
  | JObj "(string \<times> json) list"

record py_env =
  expanduser :: "string \<Rightarrow> string"
  path_exists :: "string \<Rightarrow> bool"
  subprocess_run :: "string list \<Rightarrow> string option \<Rightarrow> int \<Rightarrow> run_outcome"
  create_subprocess_shell :: "string \<Rightarrow> shell_outcome"
  json_loads :: "string \<Rightarrow> json option"
  py_repr :: "json \<Rightarrow> string"

text \<open>
  \<open>json_loads\<close> is \<open>None\<close> where \<open>json.loads\<close> raises \<open>JSONDecodeError\<close>;
  \<open>ShellRaised\<close> and \<open>OtherException\<close> carry \<open>str(e)\<close> of the exception.
  What a call does to the outside world is recorded as a list of events: the messages
  sent through \<open>ctx.info\<close>, \<open>ctx.warning\<close> and \<open>ctx.error\<close>, every call of
  \<open>subprocess.run\<close> (\<open>Spawn\<close>, with the argument vector, the working directory and
  the timeout), every call of \<open>asyncio.create_subprocess_shell\<close> (\<open>SpawnShell\<close>), and
  every task handed to \<open>asyncio.create_task\<close> (the tool called and its arguments).
\<close>

datatype event =
    Info string
  | Warning string
  | Error string
  | Spawn "string list" "string option" int
  | SpawnShell string
  | CreateTask string "(string \<times> string) list"

fun is_spawn :: "event \<Rightarrow> bool" where
  "is_spawn (Spawn argv cwd t) = True"
| "is_spawn (SpawnShell c) = True"
| "is_spawn e = False"

section \<open>\<open>execute_linux_command\<close> (\<open>tools/generic_cmd.py\<close>)\<close>

datatype tool_exception = ToolError string

record cmd_result =
  cmd_command :: string
  cmd_return_code :: "int option"
  cmd_stdout :: string
  cmd_stderr :: string
  cmd_timed_out :: bool
  cmd_error :: "string option"

definition expand_part :: "py_env \<Rightarrow> string \<Rightarrow> string" where
  "expand_part env part =
     (if startswith part ''~/'' \<or> part = ''~'' then expanduser env part else part)"

definition snippet :: "string \<Rightarrow> string" where
  "snippet s = take 500 s @ (if length s > 500 then ''...'' else [])"

text \<open>The \<open>except Exception as e\<close> handler, given \<open>str(e)\<close>.\<close>

definition unexpected_error ::
  "string \<Rightarrow> string \<Rightarrow> event list \<Rightarrow> (tool_exception + cmd_result) \<times> event list" where
  "unexpected_error command msg evs =
     (Inl (ToolError (''An unexpected error occurred while trying to execute the command: '' @ msg)),
      evs @ [Error (''Error executing command '' @ [CHR 0x27] @ command @ [CHR 0x27] @ '': '' @ msg)])"

definition execute_linux_command ::
  "py_env \<Rightarrow> string \<Rightarrow> string option \<Rightarrow> int \<Rightarrow> (tool_exception + cmd_result) \<times> event list" where
  "execute_linux_command env command working_directory timeout_seconds =
     (let evs0 =
            [Info (''Attempting to execute Linux command: '' @ [CHR 0x27] @ command @ [CHR 0x27]
                   @ '' with timeout '' @ str_int timeout_seconds @ ''s'')]
            @ (case working_directory of
                 None \<Rightarrow> []
               | Some wd \<Rightarrow> if wd \<noteq> [] then [Info (''Working directory: '' @ wd)] else [])
      in case shlex_split command of
           Inl (ValueError msg) \<Rightarrow> unexpected_error command msg evs0
         | Inr parts \<Rightarrow>
             (let cmd_parts = map (expand_part env) parts
              in if cmd_parts = [] then
                   unexpected_error command ''Command string cannot be empty.'' evs0
                 else
                   (let evs1 = evs0 @ [Spawn cmd_parts working_directory timeout_seconds]
                    in case subprocess_run env cmd_parts working_directory timeout_seconds of
                         Completed rc out err \<Rightarrow>
                           (let stdout = strip out;
                                stderr = strip err;
                                log_message =
                                  ''Command '' @ [CHR 0x27] @ command @ [CHR 0x27]
                                  @ '' executed. RC: '' @ str_int rc @ ''.''
                                  @ (if stdout \<noteq> [] then
                                       [CHR 0x0A] @ ''STDOUT:'' @ [CHR 0x0A] @ snippet stdout
                                     else [])
                                  @ (if stderr \<noteq> [] then
                                       [CHR 0x0A] @ ''STDERR:'' @ [CHR 0x0A] @ snippet stderr
                                     else [])
                            in (Inr \<lparr>cmd_command = command, cmd_return_code = Some rc,
                                     cmd_stdout = stdout, cmd_stderr = stderr,
                                     cmd_timed_out = False, cmd_error = None\<rparr>,
                                evs1 @ [Info log_message]))
                       | TimeoutExpired partial_out partial_err \<Rightarrow>
                           (Inr \<lparr>cmd_command = command, cmd_return_code = None,
                                 cmd_stdout = [],
                                 cmd_stderr = ''Command timed out after ''
                                              @ str_int timeout_seconds @ '' seconds.'',
                                 cmd_timed_out = True, cmd_error = None\<rparr>,
                            evs1 @ [Warning (''Command '' @ [CHR 0x27] @ command @ [CHR 0x27]
                                             @ '' timed out after '' @ str_int timeout_seconds
                                             @ '' seconds.'')])
                       | FileNotFoundError \<Rightarrow>
                           (Inl (ToolError (''Command or one of its components not found: ''
                                            @ (case cmd_parts of [] \<Rightarrow> command | p # ps \<Rightarrow> p))),
                            evs1 @ [Error (''Command not found: ''
                                           @ (case cmd_parts of [] \<Rightarrow> command | p # ps \<Rightarrow> p))])
                       | OtherException msg \<Rightarrow> unexpected_error command msg evs1)))"

section \<open>\<open>_execute_devtools_script\<close> (\<open>main.py\<close>)\<close>

definition DEVTOOLS_SCRIPTS_DIR :: string where
  "DEVTOOLS_SCRIPTS_DIR = ''./devtool-scripts''"

definition NODE_EXECUTABLE :: string where
  "NODE_EXECUTABLE = ''node''"

text \<open>\<open>os.path.join\<close> on POSIX paths.\<close>

definition join_step :: "string \<Rightarrow> string \<Rightarrow> string" where
  "join_step path b =
     (if startswith b ''/'' then b
      else if path = [] \<or> last path = CHR ''/'' then path @ b
      else path @ ''/'' @ b)"

definition os_path_join :: "string \<Rightarrow> string list \<Rightarrow> string" where
  "os_path_join a ps = foldl join_step a ps"

text \<open>
  The function returns a string: either the script's own (stripped) standard output,
  or \<open>json.dumps\<close> of a dictionary built by the function. \<open>JsonDumps\<close> holds the
  items of that dictionary in order.
\<close>

datatype script_reply =
    RawOutput string
  | JsonDumps "(string \<times> string) list"

text \<open>
  \<open>"error" in parsed\<close> and \<open>parsed['error']\<close> on a decoded JSON value; \<open>Inl\<close> is
  the message of the \<open>TypeError\<close> or \<open>KeyError\<close> Python raises. A \<open>JObj\<close> holds the
  items of the decoded dictionary.
\<close>

fun type_name :: "json \<Rightarrow> string" where
  "type_name JNull = ''NoneType''"
| "type_name (JBool b) = ''bool''"
| "type_name (JInt i) = ''int''"
| "type_name (JFloat f) = ''float''"
| "type_name (JStr s) = ''str''"
| "type_name (JArr xs) = ''list''"
| "type_name (JObj kvs) = ''dict''"

fun error_in :: "json \<Rightarrow> string + bool" where
  "error_in (JObj kvs) = Inr (map_of kvs ''error'' \<noteq> None)"
| "error_in (JArr xs) = Inr (List.member xs (JStr ''error''))"
| "error_in (JStr s) = Inr (str_contains s ''error'')"
| "error_in v = Inl (''argument of type '' @ [CHR 0x27] @ type_name v @ [CHR 0x27]
                     @ '' is not iterable'')"

fun error_item :: "json \<Rightarrow> string + json" where
  "error_item (JObj kvs) =
     (case map_of kvs ''error'' of
        None \<Rightarrow> Inl ([CHR 0x27] @ ''error'' @ [CHR 0x27])
      | Some v \<Rightarrow> Inr v)"
| "error_item (JArr xs) = Inl ''list indices must be integers or slices, not str''"
| "error_item (JStr s) =
     Inl (''string indices must be integers, not '' @ [CHR 0x27] @ ''str'' @ [CHR 0x27])"
| "error_item v = Inl ([CHR 0x27] @ type_name v @ [CHR 0x27] @ '' object is not subscriptable'')"

text \<open>\<open>str(v)\<close> as an f-string renders a decoded value.\<close>

definition str_json :: "py_env \<Rightarrow> json \<Rightarrow> string" where
  "str_json env v =
     (case v of
        JStr s \<Rightarrow> s
      | JNull \<Rightarrow> ''None''
      | JBool b \<Rightarrow> (if b then ''True'' else ''False'')
      | JInt i \<Rightarrow> str_int i
      | _ \<Rightarrow> py_repr env v)"

definition python_error :: "string \<Rightarrow> string \<Rightarrow> script_reply" where
  "python_error script_name msg =
     JsonDumps [(''error'', ''Python error calling '' @ script_name @ '': '' @ msg)]"

text \<open>The body of the \<open>try\<close> block after \<open>subprocess.run\<close> has returned.\<close>

definition normalize_completed ::
  "py_env \<Rightarrow> string \<Rightarrow> int \<Rightarrow> string \<Rightarrow> string \<Rightarrow> script_reply" where
  "normalize_completed env script_name returncode out err =
     (let output_data = strip out;
          error_data = strip err;
          exec_error =
            JsonDumps [(''error'', ''Error executing '' @ script_name @ '' (exit code ''
                                   @ str_int returncode @ '')''),
                       (''stdout'', output_data),
                       (''stderr'', error_data)]
      in if returncode \<noteq> 0 then
           (case json_loads env output_data of
              None \<Rightarrow> exec_error
            | Some parsed_stdout_error \<Rightarrow>
                (case error_in parsed_stdout_error of
                   Inl msg \<Rightarrow> python_error script_name msg
                 | Inr False \<Rightarrow> exec_error
                 | Inr True \<Rightarrow>
                     (case error_item parsed_stdout_error of
                        Inl msg \<Rightarrow> python_error script_name msg
                      | Inr v \<Rightarrow>
                          JsonDumps [(''error'', ''Error from '' @ script_name @ '' (exit code ''
                                                 @ str_int returncode @ ''): '' @ str_json env v),
                                     (''stderr'', error_data)])))
         else
           (case json_loads env output_data of
              Some v \<Rightarrow> RawOutput output_data
            | None \<Rightarrow>
                JsonDumps [(''error'', ''Non-JSON output received from '' @ script_name),
                           (''raw_output'', output_data)]))"

definition execute_devtools_script ::
  "py_env \<Rightarrow> string \<Rightarrow> string \<Rightarrow> script_reply \<times> event list" where
  "execute_devtools_script env script_name url =
     (let script_path = os_path_join DEVTOOLS_SCRIPTS_DIR [script_name]
      in if \<not> path_exists env script_path then
           (JsonDumps [(''error'', ''DevTools script not found: '' @ script_path)], [])
         else if \<not> path_exists env
                     (os_path_join DEVTOOLS_SCRIPTS_DIR [''node_modules'', ''puppeteer'']) then
           (JsonDumps [(''error'', ''Puppeteer not found in '' @ DEVTOOLS_SCRIPTS_DIR
                          @ ''/node_modules. Please run '' @ [CHR 0x27] @ ''npm install puppeteer''
                          @ [CHR 0x27] @ '' in that directory.'')], [])
         else
           (let command = [NODE_EXECUTABLE, script_path, url];
                evs = [Spawn command (Some DEVTOOLS_SCRIPTS_DIR) 90]
            in case subprocess_run env command (Some DEVTOOLS_SCRIPTS_DIR) 90 of
                 Completed returncode out err \<Rightarrow>
                   (normalize_completed env script_name returncode out err, evs)
               | TimeoutExpired partial_out partial_err \<Rightarrow>
                   (JsonDumps [(''error'', ''Timeout executing '' @ script_name
                                           @ '' for URL: '' @ url)], evs)
               | FileNotFoundError \<Rightarrow>
                   (JsonDumps [(''error'', ''Node.js executable ('' @ [CHR 0x27] @ NODE_EXECUTABLE
                                  @ [CHR 0x27] @ '') not found. Please ensure Node.js is installed ''
                                  @ ''and in your PATH.'')], evs)
               | OtherException msg \<Rightarrow> (python_error script_name msg, evs)))"


section \<open>\<open>execute_bash_command\<close> (\<open>main.py\<close>)\<close>

datatype action_result = ActionResult string

definition execute_bash_command :: "py_env \<Rightarrow> string \<Rightarrow> action_result \<times> event list" where
  "execute_bash_command env command =
     (case sanitize_command command of
        Inl (ValueError msg) \<Rightarrow> (ActionResult (''Command sanitization failed: '' @ msg), [])
      | Inr sanitized_command \<Rightarrow>
          (let evs = [SpawnShell sanitized_command]
           in case create_subprocess_shell env sanitized_command of
                ShellRaised msg \<Rightarrow> (ActionResult (''Error executing bash command: '' @ msg), evs)
              | ShellExited returncode out err \<Rightarrow>
                  (let result_output = strip out;
                       result_error = strip err
                   in if returncode \<noteq> 0 then
                        (ActionResult (''Bash command failed with error code '' @ str_int returncode
                                       @ ''.'' @ [CHR 0x0A] @ ''Output:'' @ [CHR 0x0A] @ result_output
                                       @ [CHR 0x0A] @ ''Error:'' @ [CHR 0x0A] @ result_error), evs)
                      else
                        (ActionResult (''Bash command executed successfully.'' @ [CHR 0x0A]
                                       @ ''Output:'' @ [CHR 0x0A] @ result_output
                                       @ (if result_error \<noteq> [] then
                                            [CHR 0x0A] @ ''Error (stderr, but exit code 0):''
                                            @ [CHR 0x0A] @ result_error
                                          else [])), evs))))"

section \<open>Orchestration (\<open>tools/python-tools/analysis.py\<close>)\<close>

datatype profile = quick_recon | web_deep_dive | full_infrastructure_pentest

fun profile_str :: "profile \<Rightarrow> string" where
  "profile_str quick_recon = ''quick_recon''"
| "profile_str web_deep_dive = ''web_deep_dive''"
| "profile_str full_infrastructure_pentest = ''full_infrastructure_pentest''"

text \<open>
  \<open>start_full_assessment\<close> reads two things of the \<open>Context\<close> it is given:
  \<open>ctx.info\<close> and \<open>ctx.client\<close>. Reading an attribute the object does not have
  raises \<open>AttributeError\<close>. The \<open>Context\<close> that FastMCP hands to a tool has
  \<open>info\<close> and has no attribute \<open>client\<close>.
\<close>

record tool_context =
  ctx_has_client :: bool

definition fastmcp_context :: tool_context where
  "fastmcp_context = \<lparr>ctx_has_client = False\<rparr>"

datatype orchestration_exception = AttributeError string

datatype assessment_event =
    AssessmentInfo ustring
  | AssessmentTask ustring "(ustring \<times> ustring) list"

record started =
  sa_assessment_id :: ustring
  sa_status :: ustring
  sa_profile :: ustring

definition make_assessment_id :: "(nat \<Rightarrow> ustring) \<Rightarrow> ustring \<Rightarrow> profile \<Rightarrow> ustring" where
  "make_assessment_id unicode_upper assessment_name p =
     ustr ''ASMT_'' @ upper unicode_upper (replace_cp 32 95 assessment_name) @ ustr ''_''
     @ upper unicode_upper (ustr (profile_str p))"

text \<open>
  The message goes to \<open>ctx.info\<close> first, then the id is built, then the argument of
  \<open>asyncio.create_task\<close> is evaluated, which reads \<open>ctx.client\<close>; the \<open>return\<close>
  comes last.
\<close>

definition start_full_assessment ::
  "(nat \<Rightarrow> ustring) \<Rightarrow> tool_context \<Rightarrow> ustring \<Rightarrow> ustring \<Rightarrow> profile
   \<Rightarrow> (orchestration_exception + started) \<times> assessment_event list" where
  "start_full_assessment unicode_upper ctx target_scope_description assessment_name p =
     (let evs = [AssessmentInfo (ustr ''Starting full assessment '' @ [39] @ assessment_name
                                 @ [39] @ ustr '' for '' @ target_scope_description)];
          assessment_id = make_assessment_id unicode_upper assessment_name p
      in if \<not> ctx_has_client ctx then
           (Inl (AttributeError ([CHR 0x27] @ ''Context'' @ [CHR 0x27]
                                 @ '' object has no attribute '' @ [CHR 0x27] @ ''client''
                                 @ [CHR 0x27])),
            evs)
         else
           (Inr \<lparr>sa_assessment_id = assessment_id, sa_status = ustr ''initiated'',
                 sa_profile = ustr (profile_str p)\<rparr>,
            evs @ [AssessmentTask (ustr ''ReconnaissanceTools.subdomain_enumeration'')
                     [(ustr ''target_domain'', target_scope_description)]]))"

record assessment_status =
  st_assessment_id :: string
  st_status :: string
  st_progress :: int

definition get_assessment_status :: "string \<Rightarrow> assessment_status \<times> event list" where
  "get_assessment_status assessment_id =
     (\<lparr>st_assessment_id = assessment_id, st_status = ''in_progress'', st_progress = 50\<rparr>,
      [Info (''Fetching status for assessment '' @ assessment_id)])"

section \<open>Predicates used in the statements\<close>

text \<open>
  A command passes the deny-list check when the check the sanitizer applies to it finds
  nothing: the tokenized check where \<open>shlex.split\<close> returns, the substring check where
  it raises.
\<close>

definition deny_list_passes :: "string \<Rightarrow> bool" where
  "deny_list_passes command =
     (case shlex_split command of
        Inl e \<Rightarrow> \<not> substring_check command
      | Inr parts \<Rightarrow> \<not> tokenized_check parts)"

text \<open>A command without quote characters and without the escape character.\<close>

definition unquoted :: "string \<Rightarrow> bool" where
  "unquoted command = list_all (\<lambda>c. c \<notin> set quotes \<and> c \<noteq> escape) command"

section \<open>A concrete environment\<close>

text \<open>
  An environment for evaluating the functions on concrete inputs: \<open>sleep 5\<close> outlives
  its timeout, \<open>nmap\<close> is not installed, the script \<open>get_page_sources.js\<close> prints a
  JSON object and exits with code 0, and every other process exits with code 0 after
  printing a line that is not JSON.
\<close>

definition demo_env :: py_env where
  \<open>demo_env =
     \<lparr>expanduser = (\<lambda>p. ''/home/user'' @ tl p),
      path_exists = (\<lambda>p. True),
      subprocess_run =
        (\<lambda>argv cwd t.
           if argv = [''sleep'', ''5''] then TimeoutExpired ''tick'' []
           else if argv = [''nmap'', ''-sV'', ''10.0.0.1''] then FileNotFoundError
           else if argv = [''node'', ''./devtool-scripts/get_page_sources.js'', ''https://example.com'']
             then Completed 0 (''{"ok":true}'' @ [CHR 0x0A]) []
           else Completed 0 (''Debugger attached.'' @ [CHR 0x0A]) []),
      create_subprocess_shell = (\<lambda>c. ShellExited 0 [] []),
      json_loads = (\<lambda>s. if s = ''{"ok":true}'' then Some (JObj [(''ok'', JBool True)]) else None),
      py_repr = (\<lambda>v. [])\<rparr>\<close>

section \<open>Facts about strings and the lexer\<close>

lemma str_contains_sublist: "str_contains s sub \<longleftrightarrow> sublist sub s"
  by (induction s) (auto simp: sublist_Cons_right)

lemma emit_Inr: "emit tok r = Inr ts \<longleftrightarrow> (\<exists>ts'. r = Inr ts' \<and> ts = tok # ts')"
  by (auto simp: emit_def split: sum.splits)

text \<open>
  In a command without quotes and escapes a token is a run of the input: either the
  token being collected followed by a prefix of what is left, or a run of what is left.
  The three lemmas below move this description over one input character.
\<close>

lemma token_Cons:
  assumes "(\<exists>p. t = (tok @ [c]) @ p \<and> prefix p cs) \<or> sublist t cs"
  shows "(\<exists>p. t = tok @ p \<and> prefix p (c # cs)) \<or> sublist t (c # cs)"
proof -
  from assms consider p where "t = (tok @ [c]) @ p" "prefix p cs" | "sublist t cs"
    by blast
  then show ?thesis
  proof cases
    case 1
    then have "t = tok @ (c # p) \<and> prefix (c # p) (c # cs)"
      by simp
    then show ?thesis
      by blast
  next
    case 2
    then show ?thesis
      by (simp add: sublist_Cons_right)
  qed
qed

lemma token_fresh:
  assumes "(\<exists>p. t = [c] @ p \<and> prefix p cs) \<or> sublist t cs"
  shows "sublist t (c # cs)"
proof -
  from assms consider p where "t = [c] @ p" "prefix p cs" | "sublist t cs"
    by blast
  then show ?thesis
  proof cases
    case 1
    then have "prefix t (c # cs)"
      by simp
    then show ?thesis
      by (simp add: sublist_Cons_right)
  next
    case 2
    then show ?thesis
      by (simp add: sublist_Cons_right)
  qed
qed

lemma token_after_gap:
  assumes "(\<exists>p. t = [] @ p \<and> prefix p cs) \<or> sublist t cs"
  shows "sublist t (c # cs)"
proof -
  from assms have "sublist t cs"
    by (auto intro: prefix_imp_sublist)
  then show ?thesis
    by (simp add: sublist_Cons_right)
qed

lemma read_tokens_unquoted:
  assumes "unquoted cs"
    and "st = St_ws \<or> st = St_word"
    and "read_tokens st es quoted tok cs = Inr ts"
    and "t \<in> set ts"
  shows "(\<exists>p. t = tok @ p \<and> prefix p cs) \<or> sublist t cs"
  using assms
proof (induction cs arbitrary: st es quoted tok ts)
  case Nil
  then show ?case
    by (auto split: if_splits)
next
  case (Cons c cs)
  from Cons.prems(1) have uq: "unquoted cs" and c1: "c \<notin> set quotes" and c2: "c \<noteq> escape"
    by (simp_all add: unquoted_def)
  show ?case
  proof (cases "c \<in> set whitespace")
    case True
    show ?thesis
    proof (cases "tok \<noteq> [] \<or> quoted")
      case True
      with \<open>c \<in> set whitespace\<close> Cons.prems(2,3)
      obtain ts' where r: "read_tokens St_ws St_ws False [] cs = Inr ts'" and ts: "ts = tok # ts'"
        by (auto simp: emit_Inr)
      from Cons.prems(4) ts consider "t = tok" | "t \<in> set ts'"
        by auto
      then show ?thesis
      proof cases
        case 1
        then show ?thesis
          by simp
      next
        case 2
        from Cons.IH [OF uq _ r 2] have "sublist t (c # cs)"
          by (intro token_after_gap) simp
        then show ?thesis
          by simp
      qed
    next
      case False
      with \<open>c \<in> set whitespace\<close> Cons.prems(2,3)
      have r: "read_tokens St_ws es quoted tok cs = Inr ts"
        by auto
      from False have tok: "tok = []"
        by simp
      from Cons.IH [OF uq _ r Cons.prems(4)] have "sublist t (c # cs)"
        unfolding tok by (intro token_after_gap) simp
      then show ?thesis
        by simp
    qed
  next
    case False
    from Cons.prems(2) show ?thesis
    proof
      assume st: "st = St_ws"
      with False c1 c2 Cons.prems(3) have r: "read_tokens St_word es quoted [c] cs = Inr ts"
        by simp
      from Cons.IH [OF uq _ r Cons.prems(4)] have "sublist t (c # cs)"
        by (intro token_fresh) simp
      then show ?thesis
        by simp
    next
      assume st: "st = St_word"
      with False c1 c2 Cons.prems(3)
      have r: "read_tokens St_word es quoted (tok @ [c]) cs = Inr ts"
        by simp
      from Cons.IH [OF uq _ r Cons.prems(4)] show ?thesis
        by (intro token_Cons) simp
    qed
  qed
qed

lemma shlex_split_unquoted:
  assumes "unquoted command" and "shlex_split command = Inr parts" and "part \<in> set parts"
  shows "sublist part command"
proof -
  from assms(2) have r: "read_tokens St_ws St_ws False [] command = Inr parts"
    by (simp add: shlex_split_def)
  from read_tokens_unquoted [OF assms(1) _ r assms(3)] show ?thesis
    by (auto intro: prefix_imp_sublist)
qed

text \<open>A token found by the tokenized check starts with a deny-listed word.\<close>

lemma tokenized_check_prefix:
  assumes "tokenized_check parts"
  obtains part dc where "part \<in> set parts" and "dc \<in> set dangerous_commands"
    and "prefix dc part"
proof -
  from assms obtain part dc where part: "part \<in> set parts"
    and dc: "dc \<in> set dangerous_commands"
    and hit: "part = dc \<or> startswith part (dc @ '' '')"
    by (auto simp: tokenized_check_def list_ex_iff)
  from hit have "prefix dc part"
    by (auto simp: startswith_def dest: append_prefixD)
  with part dc that show thesis
    by blast
qed

lemma unquoted_hit_is_substring:
  assumes "unquoted command"
    and "shlex_split command = Inr parts"
    and "tokenized_check parts"
  shows "substring_check command"
proof -
  from assms(3) obtain part dc where part: "part \<in> set parts"
    and dc: "dc \<in> set dangerous_commands" and pre: "prefix dc part"
    by (rule tokenized_check_prefix)
  from pre have "sublist dc part"
    by (rule prefix_imp_sublist)
  moreover have "sublist part command"
    using assms(1,2) part by (rule shlex_split_unquoted)
  ultimately have "sublist dc command"
    by (rule sublist_order.order_trans)
  with dc show ?thesis
    by (auto simp: substring_check_def list_ex_iff str_contains_sublist)
qed

text \<open>A command of whitespace only has no token.\<close>

lemma blank_command_no_tokens:
  "set command \<subseteq> set whitespace \<Longrightarrow> read_tokens St_ws es False [] command = Inr []"
  by (induction command) auto

section \<open>The sanitizer\<close>

text \<open>
  C8. A command that passes the deny-list check is returned by the sanitizer as it was
  given, and whatever the sanitizer returns without raising is its argument. The
  sanitizer is a function from the command to a result: it has no access to the
  environment and leaves no event.
\<close>

theorem sanitize_returns_command_unchanged:
  "(deny_list_passes command \<longrightarrow> sanitize_command command = Inr command)
   \<and> (\<forall>r. sanitize_command command = Inr r \<longrightarrow> r = command)"
  by (auto simp: deny_list_passes_def sanitize_command_def sanitize_try_def
           split: sum.splits if_splits)

text \<open>Scenario A: \<open>ls -la /tmp\<close> passes the check and comes back unchanged.\<close>

theorem sanitize_returns_command_unchanged_witness:
  "deny_list_passes ''ls -la /tmp'' \<and> sanitize_command ''ls -la /tmp'' = Inr ''ls -la /tmp''"
proof -
  have h: "deny_list_passes ''ls -la /tmp''"
    by code_simp
  from sanitize_returns_command_unchanged [of "''ls -la /tmp''"] h show ?thesis
    by blast
qed

text \<open>
  C1. A command whose token is a deny-listed word is not always rejected. In
  \<open>r"m" -rf /\<close> the first token is \<open>rm\<close>, and the tokenized check finds it; the
  \<open>ValueError\<close> it raises is caught by the sanitizer's own \<open>except Exception\<close>, the
  substring check does not find \<open>rm\<close> in the raw text, and the command is returned.
  \<open>execute_bash_command\<close> then hands it to the shell.
\<close>

theorem quoted_rm_not_rejected:
  \<open>shlex_split ''r"m" -rf /'' = Inr [''rm'', ''-rf'', ''/'']
   \<and> tokenized_check [''rm'', ''-rf'', ''/'']
   \<and> sanitize_command ''r"m" -rf /'' = Inr ''r"m" -rf /''
   \<and> snd (execute_bash_command demo_env ''r"m" -rf /'') = [SpawnShell ''r"m" -rf /'']\<close>
  by code_simp

text \<open>
  Scenario B holds: \<open>sudo rm -rf /\<close> is rejected, and \<open>execute_bash_command\<close>
  starts no process for it.
\<close>

lemma sudo_rm_rejected:
  "sanitize_command ''sudo rm -rf /'' = Inl (ValueError ''Use of dangerous commands is restricted.'')
   \<and> snd (execute_bash_command env ''sudo rm -rf /'') = []"
proof -
  have "sanitize_command ''sudo rm -rf /''
          = Inl (ValueError ''Use of dangerous commands is restricted.'')"
    by code_simp
  then show ?thesis
    by (simp add: execute_bash_command_def)
qed

text \<open>
  Where the command has no quote and no escape character, a deny-listed token is
  rejected: the handler's substring check finds the word in the raw text.
\<close>

lemma unquoted_deny_listed_rejected:
  assumes "unquoted command"
    and "shlex_split command = Inr parts"
    and "tokenized_check parts"
  shows "sanitize_command command = Inl (ValueError ''Use of dangerous commands is restricted.'')"
proof -
  have "substring_check command"
    using assms by (rule unquoted_hit_is_substring)
  with assms(2,3) show ?thesis
    by (simp add: sanitize_command_def sanitize_try_def)
qed

text \<open>
  C6, as stated, fails: the tokenized check finds \<open>rm\<close> among the tokens of
  \<open>r"m" -rf /\<close>, and the substring check finds no deny-listed word in the raw text.
\<close>

theorem quoted_token_escapes_fallback:
  \<open>shlex_split ''r"m" -rf /'' = Inr [''rm'', ''-rf'', ''/'']
   \<and> tokenized_check [''rm'', ''-rf'', ''/'']
   \<and> \<not> substring_check ''r"m" -rf /''\<close>
  by code_simp

text \<open>
  C6, amended. For a command without quote characters and without the escape character,
  whenever the tokenized check rejects, the substring check rejects as well.
\<close>

theorem fallback_covers_unquoted:
  assumes "unquoted command"
    and "shlex_split command = Inr parts"
    and "tokenized_check parts"
  shows "substring_check command"
  using assms by (rule unquoted_hit_is_substring)

theorem fallback_covers_unquoted_witness:
  "unquoted ''sudo rm -rf /''
   \<and> shlex_split ''sudo rm -rf /'' = Inr [''sudo'', ''rm'', ''-rf'', ''/'']
   \<and> tokenized_check [''sudo'', ''rm'', ''-rf'', ''/'']
   \<and> substring_check ''sudo rm -rf /''"
proof -
  have h1: "unquoted ''sudo rm -rf /''"
    by code_simp
  have h2: "shlex_split ''sudo rm -rf /'' = Inr [''sudo'', ''rm'', ''-rf'', ''/'']"
    by code_simp
  have h3: "tokenized_check [''sudo'', ''rm'', ''-rf'', ''/'']"
    by code_simp
  from fallback_covers_unquoted [OF h1 h2 h3] h1 h2 h3 show ?thesis
    by simp
qed

section \<open>\<open>execute_linux_command\<close>\<close>

text \<open>
  C10. A command that is empty, or that \<open>shlex.split\<close> turns into no token at all, ends
  in a \<open>ToolError\<close> whose message says that the command string cannot be empty, and
  no process is started. The \<open>ToolError\<close> raised inside the \<open>try\<close> block passes
  through the \<open>except Exception\<close> handler, which raises a \<open>ToolError\<close> again with
  the first message behind a fixed prefix.
\<close>

theorem empty_command_is_tool_error:
  assumes "command = [] \<or> shlex_split command = Inr []"
  shows "fst (execute_linux_command env command working_directory timeout_seconds) =
           Inl (ToolError (''An unexpected error occurred while trying to execute the command: ''
                           @ ''Command string cannot be empty.''))
         \<and> \<not> list_ex is_spawn
               (snd (execute_linux_command env command working_directory timeout_seconds))"
proof -
  have "shlex_split [] = Inr []"
    by (simp add: shlex_split_def)
  with assms have s: "shlex_split command = Inr []"
    by auto
  show ?thesis
    by (simp add: execute_linux_command_def s unexpected_error_def Let_def split: option.splits)
qed

theorem empty_command_is_tool_error_witness:
  "shlex_split ''   '' = Inr []
   \<and> fst (execute_linux_command demo_env ''   '' None 60) =
       Inl (ToolError ''An unexpected error occurred while trying to execute the command: Command string cannot be empty.'')
   \<and> \<not> list_ex is_spawn (snd (execute_linux_command demo_env ''   '' None 60))
   \<and> fst (execute_linux_command demo_env [] None 60) =
       Inl (ToolError ''An unexpected error occurred while trying to execute the command: Command string cannot be empty.'')"
proof -
  have h: "shlex_split ''   '' = Inr []"
    by code_simp
  from empty_command_is_tool_error [of "''   ''" demo_env None 60] h
       empty_command_is_tool_error [of "[]" demo_env None 60]
  show ?thesis
    by simp
qed

text \<open>
  C3, as stated, fails: after a timeout the \<open>stderr\<close> of the returned dictionary is not
  empty. \<open>sleep 5\<close> under a timeout of one second:
\<close>

theorem timeout_keeps_message_in_stderr:
  "subprocess_run demo_env [''sleep'', ''5''] None 1 = TimeoutExpired ''tick'' []
   \<and> fst (execute_linux_command demo_env ''sleep 5'' None 1) =
       Inr \<lparr>cmd_command = ''sleep 5'', cmd_return_code = None, cmd_stdout = [],
            cmd_stderr = ''Command timed out after 1 seconds.'',
            cmd_timed_out = True, cmd_error = None\<rparr>
   \<and> ''Command timed out after 1 seconds.'' \<noteq> ([] :: string)"
  by code_simp

text \<open>
  C3, amended. When the process outlives the timeout, the call returns a dictionary with
  \<open>timed_out\<close> true and no return code; the output captured before the kill is
  dropped: \<open>stdout\<close> is empty and \<open>stderr\<close> is the fixed sentence naming the timeout,
  whatever the process had written.
\<close>

theorem timeout_envelope:
  assumes "shlex_split command = Inr parts"
    and "parts \<noteq> []"
    and "subprocess_run env (map (expand_part env) parts) working_directory timeout_seconds
           = TimeoutExpired partial_out partial_err"
  shows "fst (execute_linux_command env command working_directory timeout_seconds) =
           Inr \<lparr>cmd_command = command, cmd_return_code = None, cmd_stdout = [],
                cmd_stderr = ''Command timed out after '' @ str_int timeout_seconds @ '' seconds.'',
                cmd_timed_out = True, cmd_error = None\<rparr>"
  using assms by (simp add: execute_linux_command_def Let_def)

theorem timeout_envelope_witness:
  "shlex_split ''sleep 5'' = Inr [''sleep'', ''5'']
   \<and> subprocess_run demo_env (map (expand_part demo_env) [''sleep'', ''5'']) None 1
       = TimeoutExpired ''tick'' []
   \<and> fst (execute_linux_command demo_env ''sleep 5'' None 1) =
       Inr \<lparr>cmd_command = ''sleep 5'', cmd_return_code = None, cmd_stdout = [],
            cmd_stderr = ''Command timed out after '' @ str_int 1 @ '' seconds.'',
            cmd_timed_out = True, cmd_error = None\<rparr>"
proof -
  have h1: "shlex_split ''sleep 5'' = Inr [''sleep'', ''5'']"
    by code_simp
  have h2: "[''sleep'', ''5''] \<noteq> ([] :: string list)"
    by simp
  have h3: "subprocess_run demo_env (map (expand_part demo_env) [''sleep'', ''5'']) None 1
              = TimeoutExpired ''tick'' []"
    by code_simp
  from timeout_envelope [OF h1 h2 h3] h1 h3 show ?thesis
    by simp
qed

text \<open>
  C4, as stated, fails: an executable that is not found is not returned as a result; the
  call raises \<open>ToolError\<close>.
\<close>

theorem missing_executable_raises:
  "shlex_split ''nmap -sV 10.0.0.1'' = Inr [''nmap'', ''-sV'', ''10.0.0.1'']
   \<and> subprocess_run demo_env [''nmap'', ''-sV'', ''10.0.0.1''] None 60 = FileNotFoundError
   \<and> fst (execute_linux_command demo_env ''nmap -sV 10.0.0.1'' None 60) =
       Inl (ToolError ''Command or one of its components not found: nmap'')"
  by code_simp

text \<open>
  C4, amended. Once the command has a first token, the call ends in one of four ways. A
  process that completes, with any exit code, and a process that times out are returned
  as a dictionary. An executable that is not found raises \<open>ToolError\<close> with a message of
  its own, naming the first argument; any other exception raises \<open>ToolError\<close> with the
  message for unexpected errors. No other exception leaves the function.
\<close>

theorem invocation_outcomes:
  assumes "shlex_split command = Inr (p # ps)"
  shows "case subprocess_run env (map (expand_part env) (p # ps)) working_directory
                timeout_seconds of
           Completed rc out err \<Rightarrow>
             fst (execute_linux_command env command working_directory timeout_seconds) =
               Inr \<lparr>cmd_command = command, cmd_return_code = Some rc, cmd_stdout = strip out,
                    cmd_stderr = strip err, cmd_timed_out = False, cmd_error = None\<rparr>
         | TimeoutExpired partial_out partial_err \<Rightarrow>
             fst (execute_linux_command env command working_directory timeout_seconds) =
               Inr \<lparr>cmd_command = command, cmd_return_code = None, cmd_stdout = [],
                    cmd_stderr = ''Command timed out after '' @ str_int timeout_seconds
                                 @ '' seconds.'',
                    cmd_timed_out = True, cmd_error = None\<rparr>
         | FileNotFoundError \<Rightarrow>
             fst (execute_linux_command env command working_directory timeout_seconds) =
               Inl (ToolError (''Command or one of its components not found: ''
                               @ expand_part env p))
         | OtherException msg \<Rightarrow>
             fst (execute_linux_command env command working_directory timeout_seconds) =
               Inl (ToolError (''An unexpected error occurred while trying to execute the command: ''
                               @ msg))"
  using assms
  by (simp add: execute_linux_command_def Let_def unexpected_error_def split: run_outcome.splits)

theorem invocation_outcomes_witness:
  "shlex_split ''nmap -sV 10.0.0.1'' = Inr [''nmap'', ''-sV'', ''10.0.0.1'']
   \<and> fst (execute_linux_command demo_env ''nmap -sV 10.0.0.1'' None 60) =
       Inl (ToolError (''Command or one of its components not found: ''
                       @ expand_part demo_env ''nmap''))"
proof -
  have h: "shlex_split ''nmap -sV 10.0.0.1'' = Inr [''nmap'', ''-sV'', ''10.0.0.1'']"
    by code_simp
  have r: "subprocess_run demo_env (map (expand_part demo_env) [''nmap'', ''-sV'', ''10.0.0.1''])
             None 60 = FileNotFoundError"
    by code_simp
  from invocation_outcomes [OF h, of demo_env None 60] r h show ?thesis
    by simp
qed

section \<open>\<open>_execute_devtools_script\<close>\<close>




text \<open>
  C7, as stated, fails: the \<open>raw_output\<close> entry is not the standard output as the
  process wrote it. The line feed that ends the output is gone.
\<close>

theorem raw_output_is_stripped:
  "subprocess_run demo_env
     [''node'', ''./devtool-scripts/get_network_data.js'', ''https://example.com'']
     (Some ''./devtool-scripts'') 90 = Completed 0 (''Debugger attached.'' @ [CHR 0x0A]) []
   \<and> fst (execute_devtools_script demo_env ''get_network_data.js'' ''https://example.com'') =
       JsonDumps [(''error'', ''Non-JSON output received from get_network_data.js''),
                  (''raw_output'', ''Debugger attached.'')]
   \<and> ''Debugger attached.'' \<noteq> ''Debugger attached.'' @ [CHR 0x0A]"
  by code_simp

text \<open>
  C7, amended. When the script exits with code 0 and its stripped standard output is
  not valid JSON, the reply is a dictionary whose \<open>error\<close> entry says that non-JSON
  output was received from the script and whose \<open>raw_output\<close> entry is the standard
  output with leading and trailing whitespace stripped.
\<close>

theorem non_json_output_reported:
  assumes "path_exists env (os_path_join DEVTOOLS_SCRIPTS_DIR [script_name])"
    and "path_exists env (os_path_join DEVTOOLS_SCRIPTS_DIR [''node_modules'', ''puppeteer''])"
    and "subprocess_run env [NODE_EXECUTABLE, os_path_join DEVTOOLS_SCRIPTS_DIR [script_name], url]
           (Some DEVTOOLS_SCRIPTS_DIR) 90 = Completed 0 out err"
    and "json_loads env (strip out) = None"
  shows "fst (execute_devtools_script env script_name url) =
           JsonDumps [(''error'', ''Non-JSON output received from '' @ script_name),
                      (''raw_output'', strip out)]"
  using assms
  by (simp add: execute_devtools_script_def normalize_completed_def Let_def)

theorem non_json_output_reported_witness:
  "json_loads demo_env (strip (''Debugger attached.'' @ [CHR 0x0A])) = None
   \<and> fst (execute_devtools_script demo_env ''get_application_storage.js''
            ''https://example.com'') =
       JsonDumps [(''error'', ''Non-JSON output received from '' @ ''get_application_storage.js''),
                  (''raw_output'', strip (''Debugger attached.'' @ [CHR 0x0A]))]"
proof -
  have h1: "path_exists demo_env
              (os_path_join DEVTOOLS_SCRIPTS_DIR [''get_application_storage.js''])"
    by code_simp
  have h2: "path_exists demo_env
              (os_path_join DEVTOOLS_SCRIPTS_DIR [''node_modules'', ''puppeteer''])"
    by code_simp
  have h3: "subprocess_run demo_env
        [NODE_EXECUTABLE, os_path_join DEVTOOLS_SCRIPTS_DIR [''get_application_storage.js''],
         ''https://example.com'']
        (Some DEVTOOLS_SCRIPTS_DIR) 90 = Completed 0 (''Debugger attached.'' @ [CHR 0x0A]) []"
    by code_simp
  have h4: "json_loads demo_env (strip (''Debugger attached.'' @ [CHR 0x0A])) = None"
    by code_simp
  from non_json_output_reported [OF h1 h2 h3 h4] h4 show ?thesis
    by simp
qed

section \<open>Orchestration\<close>

text \<open>
  C2. The call does not return. With the \<open>Context\<close> FastMCP hands to a tool, for
  the name \<open>Test Run\<close> and the profile \<open>quick_recon\<close>, the id
  \<open>ASMT_TEST_RUN_QUICK_RECON\<close> is built from the two, and the next line raises
  \<open>AttributeError\<close> on \<open>ctx.client\<close>: no task is created and neither the id nor
  the status \<open>initiated\<close> reaches the caller.
\<close>

theorem start_full_assessment_raises:
  "make_assessment_id unicode_upper (ustr ''Test Run'') quick_recon
     = ustr ''ASMT_TEST_RUN_QUICK_RECON''
   \<and> start_full_assessment unicode_upper fastmcp_context (ustr ''example.com'')
         (ustr ''Test Run'') quick_recon =
       (Inl (AttributeError ([CHR 0x27] @ ''Context'' @ [CHR 0x27]
                             @ '' object has no attribute '' @ [CHR 0x27] @ ''client''
                             @ [CHR 0x27])),
        [AssessmentInfo (ustr ''Starting full assessment '' @ [39] @ ustr ''Test Run''
                         @ [39] @ ustr '' for '' @ ustr ''example.com'')])"
proof -
  have id: "make_assessment_id unicode_upper (ustr ''Test Run'') quick_recon
              = ustr ''ASMT_TEST_RUN_QUICK_RECON''"
    by (simp add: make_assessment_id_def upper_def upper_cp_def replace_cp_def ustr_def)
  have "\<not> ctx_has_client fastmcp_context"
    by (simp add: fastmcp_context_def)
  then show ?thesis
    using id by (simp add: start_full_assessment_def Let_def)
qed

text \<open>
  Given a context that has a \<open>client\<close>, the call returns: the id is \<open>ASMT_\<close>, the
  name with every space replaced by an underscore and then upper-cased, an underscore,
  and the profile upper-cased; the status is \<open>initiated\<close>, and one task is created.
\<close>

lemma start_full_assessment_with_client:
  assumes "ctx_has_client ctx"
  shows "start_full_assessment unicode_upper ctx target_scope_description assessment_name p =
           (Inr \<lparr>sa_assessment_id =
                   ustr ''ASMT_'' @ upper unicode_upper (replace_cp 32 95 assessment_name)
                   @ ustr ''_'' @ upper unicode_upper (ustr (profile_str p)),
                 sa_status = ustr ''initiated'',
                 sa_profile = ustr (profile_str p)\<rparr>,
            [AssessmentInfo (ustr ''Starting full assessment '' @ [39] @ assessment_name
                             @ [39] @ ustr '' for '' @ target_scope_description),
             AssessmentTask (ustr ''ReconnaissanceTools.subdomain_enumeration'')
               [(ustr ''target_domain'', target_scope_description)]])"
  using assms by (simp add: start_full_assessment_def make_assessment_id_def Let_def)

text \<open>
  C9, as stated, fails. The module keeps no record of the assessments it has started:
  \<open>start_full_assessment\<close> returns the id and stores nothing, and
  \<open>get_assessment_status\<close> reads nothing. Asked about an id that was never started,
  it answers with a record in progress at 50 percent.
\<close>

theorem unknown_assessment_reported_in_progress:
  "fst (get_assessment_status ''ASMT_NEVER_STARTED_QUICK_RECON'') =
     \<lparr>st_assessment_id = ''ASMT_NEVER_STARTED_QUICK_RECON'', st_status = ''in_progress'',
      st_progress = 50\<rparr>"
  by (simp add: get_assessment_status_def)

text \<open>
  C9, amended. For every assessment id, started or not, the status query returns the
  record with that id, the status \<open>in_progress\<close> and the progress 50; it never
  answers that the assessment is not found.
\<close>

theorem status_is_always_in_progress:
  "fst (get_assessment_status assessment_id) =
     \<lparr>st_assessment_id = assessment_id, st_status = ''in_progress'', st_progress = 50\<rparr>"
  by (simp add: get_assessment_status_def)

end
